theory Spec2Isabelle
  imports Main "HOL-Library.Word"
begin

unbundle bit_operations_syntax

section \<open>Horizon OS result codes (core/hle/result.h)\<close>

text \<open>
  The header packs an error module and a description into one 32-bit word, groups
  descriptions into ranges, pairs a value with a failure code, and supplies macros for
  early return and for clean-up keyed on the returned code. Every part is embedded below
  as it is written; the order follows the header.
\<close>

type_synonym u32 = "32 word"

subsection \<open>ErrorModule\<close>

text \<open>
  \<open>enum class ErrorModule : u32\<close>. A scoped enumeration with a fixed underlying type
  holds every value of that type, so the type is \<open>u32\<close> and each enumerator is a
  constant.
\<close>

type_synonym ErrorModule = u32

definition ErrorModule_Common :: ErrorModule where "ErrorModule_Common = 0"
definition ErrorModule_Kernel :: ErrorModule where "ErrorModule_Kernel = 1"
definition ErrorModule_FS :: ErrorModule where "ErrorModule_FS = 2"
definition ErrorModule_OS :: ErrorModule where "ErrorModule_OS = 3"
definition ErrorModule_HTCS :: ErrorModule where "ErrorModule_HTCS = 4"
definition ErrorModule_NCM :: ErrorModule where "ErrorModule_NCM = 5"
definition ErrorModule_DD :: ErrorModule where "ErrorModule_DD = 6"
definition ErrorModule_LR :: ErrorModule where "ErrorModule_LR = 8"
definition ErrorModule_Loader :: ErrorModule where "ErrorModule_Loader = 9"
definition ErrorModule_CMIF :: ErrorModule where "ErrorModule_CMIF = 10"
definition ErrorModule_HIPC :: ErrorModule where "ErrorModule_HIPC = 11"
definition ErrorModule_PM :: ErrorModule where "ErrorModule_PM = 15"
definition ErrorModule_NS :: ErrorModule where "ErrorModule_NS = 16"
definition ErrorModule_HTC :: ErrorModule where "ErrorModule_HTC = 18"
definition ErrorModule_NCMContent :: ErrorModule where "ErrorModule_NCMContent = 20"
definition ErrorModule_SM :: ErrorModule where "ErrorModule_SM = 21"
definition ErrorModule_RO :: ErrorModule where "ErrorModule_RO = 22"
definition ErrorModule_SDMMC :: ErrorModule where "ErrorModule_SDMMC = 24"
definition ErrorModule_OVLN :: ErrorModule where "ErrorModule_OVLN = 25"
definition ErrorModule_SPL :: ErrorModule where "ErrorModule_SPL = 26"
definition ErrorModule_ETHC :: ErrorModule where "ErrorModule_ETHC = 100"
definition ErrorModule_I2C :: ErrorModule where "ErrorModule_I2C = 101"
definition ErrorModule_GPIO :: ErrorModule where "ErrorModule_GPIO = 102"
definition ErrorModule_UART :: ErrorModule where "ErrorModule_UART = 103"
definition ErrorModule_Settings :: ErrorModule where "ErrorModule_Settings = 105"
definition ErrorModule_WLAN :: ErrorModule where "ErrorModule_WLAN = 107"
definition ErrorModule_XCD :: ErrorModule where "ErrorModule_XCD = 108"
definition ErrorModule_NIFM :: ErrorModule where "ErrorModule_NIFM = 110"
definition ErrorModule_Hwopus :: ErrorModule where "ErrorModule_Hwopus = 111"
definition ErrorModule_Bluetooth :: ErrorModule where "ErrorModule_Bluetooth = 113"
definition ErrorModule_VI :: ErrorModule where "ErrorModule_VI = 114"
definition ErrorModule_NFP :: ErrorModule where "ErrorModule_NFP = 115"
definition ErrorModule_Time :: ErrorModule where "ErrorModule_Time = 116"
definition ErrorModule_FGM :: ErrorModule where "ErrorModule_FGM = 117"
definition ErrorModule_OE :: ErrorModule where "ErrorModule_OE = 118"
definition ErrorModule_PCIe :: ErrorModule where "ErrorModule_PCIe = 120"
definition ErrorModule_Friends :: ErrorModule where "ErrorModule_Friends = 121"
definition ErrorModule_BCAT :: ErrorModule where "ErrorModule_BCAT = 122"
definition ErrorModule_SSLSrv :: ErrorModule where "ErrorModule_SSLSrv = 123"
definition ErrorModule_Account :: ErrorModule where "ErrorModule_Account = 124"
definition ErrorModule_News :: ErrorModule where "ErrorModule_News = 125"
definition ErrorModule_Mii :: ErrorModule where "ErrorModule_Mii = 126"
definition ErrorModule_NFC :: ErrorModule where "ErrorModule_NFC = 127"
definition ErrorModule_AM :: ErrorModule where "ErrorModule_AM = 128"
definition ErrorModule_PlayReport :: ErrorModule where "ErrorModule_PlayReport = 129"
definition ErrorModule_AHID :: ErrorModule where "ErrorModule_AHID = 130"
definition ErrorModule_Qlaunch :: ErrorModule where "ErrorModule_Qlaunch = 132"
definition ErrorModule_PCV :: ErrorModule where "ErrorModule_PCV = 133"
definition ErrorModule_OMM :: ErrorModule where "ErrorModule_OMM = 134"
definition ErrorModule_BPC :: ErrorModule where "ErrorModule_BPC = 135"
definition ErrorModule_PSM :: ErrorModule where "ErrorModule_PSM = 136"
definition ErrorModule_NIM :: ErrorModule where "ErrorModule_NIM = 137"
definition ErrorModule_PSC :: ErrorModule where "ErrorModule_PSC = 138"
definition ErrorModule_TC :: ErrorModule where "ErrorModule_TC = 139"
definition ErrorModule_USB :: ErrorModule where "ErrorModule_USB = 140"
definition ErrorModule_NSD :: ErrorModule where "ErrorModule_NSD = 141"
definition ErrorModule_PCTL :: ErrorModule where "ErrorModule_PCTL = 142"
definition ErrorModule_BTM :: ErrorModule where "ErrorModule_BTM = 143"
definition ErrorModule_ETicket :: ErrorModule where "ErrorModule_ETicket = 145"
definition ErrorModule_NGC :: ErrorModule where "ErrorModule_NGC = 146"
definition ErrorModule_ERPT :: ErrorModule where "ErrorModule_ERPT = 147"
definition ErrorModule_APM :: ErrorModule where "ErrorModule_APM = 148"
definition ErrorModule_Profiler :: ErrorModule where "ErrorModule_Profiler = 150"
definition ErrorModule_ErrorUpload :: ErrorModule where "ErrorModule_ErrorUpload = 151"
definition ErrorModule_Audio :: ErrorModule where "ErrorModule_Audio = 153"
definition ErrorModule_NPNS :: ErrorModule where "ErrorModule_NPNS = 154"
definition ErrorModule_NPNSHTTPSTREAM :: ErrorModule where "ErrorModule_NPNSHTTPSTREAM = 155"
definition ErrorModule_ARP :: ErrorModule where "ErrorModule_ARP = 157"
definition ErrorModule_SWKBD :: ErrorModule where "ErrorModule_SWKBD = 158"
definition ErrorModule_BOOT :: ErrorModule where "ErrorModule_BOOT = 159"
definition ErrorModule_NFCMifare :: ErrorModule where "ErrorModule_NFCMifare = 161"
definition ErrorModule_UserlandAssert :: ErrorModule where "ErrorModule_UserlandAssert = 162"
definition ErrorModule_Fatal :: ErrorModule where "ErrorModule_Fatal = 163"
definition ErrorModule_NIMShop :: ErrorModule where "ErrorModule_NIMShop = 164"
definition ErrorModule_SPSM :: ErrorModule where "ErrorModule_SPSM = 165"
definition ErrorModule_BGTC :: ErrorModule where "ErrorModule_BGTC = 167"
definition ErrorModule_UserlandCrash :: ErrorModule where "ErrorModule_UserlandCrash = 168"
definition ErrorModule_SREPO :: ErrorModule where "ErrorModule_SREPO = 180"
definition ErrorModule_Dauth :: ErrorModule where "ErrorModule_Dauth = 181"
definition ErrorModule_HID :: ErrorModule where "ErrorModule_HID = 202"
definition ErrorModule_LDN :: ErrorModule where "ErrorModule_LDN = 203"
definition ErrorModule_Irsensor :: ErrorModule where "ErrorModule_Irsensor = 205"
definition ErrorModule_Capture :: ErrorModule where "ErrorModule_Capture = 206"
definition ErrorModule_Manu :: ErrorModule where "ErrorModule_Manu = 208"
definition ErrorModule_ATK :: ErrorModule where "ErrorModule_ATK = 209"
definition ErrorModule_GRC :: ErrorModule where "ErrorModule_GRC = 212"
definition ErrorModule_Migration :: ErrorModule where "ErrorModule_Migration = 216"
definition ErrorModule_MigrationLdcServ :: ErrorModule where "ErrorModule_MigrationLdcServ = 217"
definition ErrorModule_GeneralWebApplet :: ErrorModule where "ErrorModule_GeneralWebApplet = 800"
definition ErrorModule_WifiWebAuthApplet :: ErrorModule where "ErrorModule_WifiWebAuthApplet = 809"
definition ErrorModule_WhitelistedApplet :: ErrorModule where "ErrorModule_WhitelistedApplet = 810"
definition ErrorModule_ShopN :: ErrorModule where "ErrorModule_ShopN = 811"

subsection \<open>BitField\<close>

text \<open>
  Modelled from the spec: \<open>common/bit_field.h\<close> (the class template \<open>BitField\<close> with
  \<open>FormatValue\<close>, \<open>ExtractValue\<close>, \<open>Value\<close> and \<open>bits\<close>) is not among the sources.
  The spec gives the layout as shift-and-mask accessors over one unsigned 32-bit word,
  out-of-range values being truncated by the mask. The field is \<open>bits\<close> wide and starts
  at bit \<open>position\<close>.
\<close>

definition BitField_mask :: "nat \<Rightarrow> nat \<Rightarrow> u32" where
  "BitField_mask position bits = push_bit position (mask bits)"

text \<open>Modelled from the spec: \<open>BitField::FormatValue\<close>, the value shifted into place and masked.\<close>

definition FormatValue :: "nat \<Rightarrow> nat \<Rightarrow> u32 \<Rightarrow> u32" where
  "FormatValue position bits v = push_bit position v AND BitField_mask position bits"

text \<open>Modelled from the spec: \<open>BitField::ExtractValue\<close> (and \<open>Value\<close>), the field masked out and
  shifted down.\<close>

definition ExtractValue :: "nat \<Rightarrow> nat \<Rightarrow> u32 \<Rightarrow> u32" where
  "ExtractValue position bits storage = drop_bit position (storage AND BitField_mask position bits)"

subsection \<open>Result\<close>

text \<open>
  \<open>union Result { u32 raw; BitField<0, 9, ErrorModule> module; BitField<9, 13, u32>
  description; }\<close>: all three members overlay the same word, so the state is \<open>raw\<close>
  alone and the two bit-fields are views of it.
\<close>

record Result =
  raw :: u32

definition module_bits :: nat where
  "module_bits = 9"

definition module :: "Result \<Rightarrow> ErrorModule" where
  "module r = ExtractValue 0 module_bits (raw r)"

definition description :: "Result \<Rightarrow> u32" where
  "description r = ExtractValue 9 13 (raw r)"

text \<open>\<open>constexpr explicit Result(u32 raw_)\<close>\<close>

definition Result_raw :: "u32 \<Rightarrow> Result" where
  "Result_raw raw' = \<lparr>raw = raw'\<rparr>"

text \<open>\<open>constexpr Result(ErrorModule module_, u32 description_)\<close>\<close>

definition Result :: "ErrorModule \<Rightarrow> u32 \<Rightarrow> Result" where
  "Result module' description' =
     \<lparr>raw = FormatValue 0 module_bits module' OR FormatValue 9 13 description'\<rparr>"

definition IsSuccess :: "Result \<Rightarrow> bool" where
  "IsSuccess r = (raw r = 0)"

definition IsError :: "Result \<Rightarrow> bool" where
  "IsError r = (\<not> IsSuccess r)"

definition IsFailure :: "Result \<Rightarrow> bool" where
  "IsFailure r = (\<not> IsSuccess r)"

definition GetInnerValue :: "Result \<Rightarrow> u32" where
  "GetInnerValue r = module r OR push_bit module_bits (description r)"

definition Result_Includes :: "Result \<Rightarrow> Result \<Rightarrow> bool" where
  "Result_Includes r result = (GetInnerValue r = GetInnerValue result)"

text \<open>\<open>operator==\<close> and \<open>operator!=\<close> on \<open>Result\<close>\<close>

definition Result_eq :: "Result \<Rightarrow> Result \<Rightarrow> bool" where
  "Result_eq a b = (raw a = raw b)"

definition Result_ne :: "Result \<Rightarrow> Result \<Rightarrow> bool" where
  "Result_ne a b = (\<not> Result_eq a b)"

definition ResultSuccess :: Result where
  "ResultSuccess = Result_raw 0"

text \<open>\<open>constexpr Result ResultUnknown(UINT32_MAX)\<close>\<close>

definition ResultUnknown :: Result where
  "ResultUnknown = Result_raw 0xFFFFFFFF"

subsection \<open>ResultRange\<close>

record ResultRange =
  code :: Result
  description_end :: u32

definition ResultRange :: "ErrorModule \<Rightarrow> u32 \<Rightarrow> u32 \<Rightarrow> ResultRange" where
  "ResultRange module' description_start description_end' =
     \<lparr>code = Result module' description_start, description_end = description_end'\<rparr>"

text \<open>\<open>constexpr operator Result() const\<close>\<close>

definition ResultRange_to_Result :: "ResultRange \<Rightarrow> Result" where
  "ResultRange_to_Result range' = code range'"

definition ResultRange_Includes :: "ResultRange \<Rightarrow> Result \<Rightarrow> bool" where
  "ResultRange_Includes range' other =
     (module (code range') = module other \<and> description (code range') \<le> description other \<and>
      description other \<le> description_end range')"

subsection \<open>Expected and assertions\<close>

text \<open>
  Modelled from the spec: \<open>common/expected.h\<close> (\<open>Common::Expected\<close> and
  \<open>Common::Unexpected\<close>) is not among the sources. The spec describes it as a tagged
  union of a produced value and a failure code.
\<close>

datatype ('t, 'e) Expected = Val 't | Unexpected 'e

text \<open>Modelled from the spec: \<open>Expected::has_value\<close>.\<close>

fun has_value :: "('t, 'e) Expected \<Rightarrow> bool" where
  "has_value (Val v) = True"
| "has_value (Unexpected e) = False"

text \<open>Modelled from the spec: \<open>Expected::value_or\<close>.\<close>

fun value_or :: "('t, 'e) Expected \<Rightarrow> 't \<Rightarrow> 't" where
  "value_or (Val v) d = v"
| "value_or (Unexpected e) d = d"

text \<open>
  Modelled from the spec: \<open>common/assert.h\<close> (\<open>ASSERT_MSG\<close>) is not among the sources.
  The spec has a failed assertion end the call fatally, without a value.
\<close>

datatype fault = AssertionFailure string | BadExpectedAccess

definition ASSERT_MSG :: "bool \<Rightarrow> string \<Rightarrow> fault + unit" where
  "ASSERT_MSG cond msg = (if cond then Inr () else Inl (AssertionFailure msg))"

subsection \<open>ResultVal\<close>

record 't ResultVal =
  expected :: "('t, Result) Expected"

text \<open>\<open>constexpr ResultVal(Result code) : expected{Common::Unexpected(code)}\<close>\<close>

definition ResultVal_of_code :: "Result \<Rightarrow> 't ResultVal" where
  "ResultVal_of_code code' = \<lparr>expected = Unexpected code'\<rparr>"

text \<open>\<open>constexpr ResultVal(ResultRange range) : expected{Common::Unexpected(range)}\<close>;
  the error type of \<open>expected\<close> is \<open>Result\<close>, so the range goes through its conversion.\<close>

definition ResultVal_of_range :: "ResultRange \<Rightarrow> 't ResultVal" where
  "ResultVal_of_range range' = \<lparr>expected = Unexpected (ResultRange_to_Result range')\<rparr>"

text \<open>
  \<open>template <typename U> constexpr ResultVal(U&& val) : expected{std::forward<U>(val)}\<close>:
  what this constructor does once it is the one called, namely store the value. Which
  constructor a call selects is \<open>ResultVal_construct\<close> below.
\<close>

definition ResultVal_of_val :: "'t \<Rightarrow> 't ResultVal" where
  "ResultVal_of_val val = \<lparr>expected = Val val\<rparr>"

text \<open>
  Constructing a \<open>ResultVal<T>\<close> from a value \<open>v\<close> of \<open>T\<close> goes through overload
  resolution, which looks at the type of the argument. A value is therefore taken
  together with its type, in the three cases that the constructors tell apart: \<open>T\<close> is
  \<open>Result\<close>, \<open>T\<close> is \<open>ResultRange\<close>, or \<open>T\<close> is any other type, whose values are the
  elements of \<open>'u\<close>. The tag says which type \<open>T\<close> is; \<open>'u\<close> only carries the values of
  a type that is neither \<open>Result\<close> nor \<open>ResultRange\<close>.
\<close>

datatype 'u T_value = T_Result Result | T_ResultRange ResultRange | T_other 'u

text \<open>
  For an argument of type \<open>Result\<close> the non-template \<open>ResultVal(Result code)\<close> and the
  template \<open>ResultVal(U&& val)\<close> are both exact matches, and the non-template one is
  preferred; likewise \<open>ResultVal(ResultRange range)\<close> for an argument of type
  \<open>ResultRange\<close>. For an argument of any other type only the templates match exactly,
  and \<open>ResultVal(U&& val)\<close> is more specialised than \<open>ResultVal(Args&&... args)\<close>.
\<close>

fun ResultVal_construct :: "'u T_value \<Rightarrow> 'u T_value ResultVal" where
  "ResultVal_construct (T_Result code') = ResultVal_of_code code'"
| "ResultVal_construct (T_ResultRange range') = ResultVal_of_range range'"
| "ResultVal_construct (T_other val) = ResultVal_of_val (T_other val)"

text \<open>\<open>explicit operator bool() const noexcept\<close>\<close>

definition ResultVal_bool :: "'t ResultVal \<Rightarrow> bool" where
  "ResultVal_bool rv = has_value (expected rv)"

text \<open>\<open>return expected.has_value() ? ResultSuccess : expected.error();\<close>\<close>

definition Code :: "'t ResultVal \<Rightarrow> Result" where
  "Code rv = (case expected rv of Val v \<Rightarrow> ResultSuccess | Unexpected e \<Rightarrow> e)"

definition Succeeded :: "'t ResultVal \<Rightarrow> bool" where
  "Succeeded rv = has_value (expected rv)"

definition Failed :: "'t ResultVal \<Rightarrow> bool" where
  "Failed rv = (\<not> has_value (expected rv))"

text \<open>
  \<open>ASSERT_MSG(Succeeded(), "Tried to Unwrap empty ResultVal"); return expected.value();\<close>
  The four overloads differ in value category only. \<open>BadExpectedAccess\<close> stands for
  \<open>value()\<close> on an \<open>expected\<close> without a value, which the assertion precedes.
\<close>

definition Unwrap :: "'t ResultVal \<Rightarrow> fault + 't" where
  "Unwrap rv =
     (case ASSERT_MSG (Succeeded rv) ''Tried to Unwrap empty ResultVal'' of
        Inl f \<Rightarrow> Inl f
      | Inr _ \<Rightarrow> (case expected rv of
                    Val v \<Rightarrow> Inr v
                  | Unexpected e \<Rightarrow> Inl BadExpectedAccess))"

definition ValueOr :: "'t ResultVal \<Rightarrow> 't \<Rightarrow> 't" where
  "ValueOr rv v = value_or (expected rv) v"

subsection \<open>Scoped result guards and the control-flow macros\<close>

text \<open>
  The macros expand inside the body of a function, declare local objects there and return
  from it. One activation of such a function is a frame:
  \<^item> \<open>locals\<close> holds the \<open>Result\<close> objects the macros declare (\<open>PrevRef_N\<close> and
    \<open>__tmp_result_N\<close>), by address, \<open>next_local\<close> being the next free address;
  \<^item> \<open>current\<close> is what the name \<open>__TmpCurrentResultReference\<close> denotes at the current
    point: \<open>None\<close> for the namespace-scope constant of type \<open>const Result\<close> and value
    \<open>ResultSuccess\<close>, \<open>Some a\<close> for a local \<open>Result&\<close> bound to the object at \<open>a\<close>;
  \<^item> \<open>guard_objs\<close> are the live \<open>ScopedResultGuard\<close> objects of the innermost open
    scope, the most recently constructed first;
  \<^item> \<open>vars\<close> are the variables a \<open>CASCADE_RESULT\<close> assigns to;
  \<^item> \<open>effects\<close> is the sequence of observable actions so far. The closure \<open>m_f\<close> of a
    guard and any other statement with an effect are known by a label only; running
    one appends its label.
\<close>

record ScopedResultGuard =
  EvaluateResult :: "Result \<Rightarrow> bool"
  m_ref :: nat
  m_f :: nat

record 't frame =
  locals :: "nat \<Rightarrow> Result"
  next_local :: nat
  current :: "nat option"
  guard_objs :: "ScopedResultGuard list"
  vars :: "nat \<Rightarrow> 't option"
  effects :: "nat list"

text \<open>
  A statement falls through to the next one, returns from the function, or is rejected
  by the compiler (the \<open>static_assert\<close> of \<open>ON_RESULT_RETURN_IMPL\<close>).
\<close>

datatype flow = Fallthrough | Returned Result | Rejected

definition R_SUCCEEDED :: "Result \<Rightarrow> bool" where
  "R_SUCCEEDED res = IsSuccess res"

definition R_FAILED :: "Result \<Rightarrow> bool" where
  "R_FAILED res = IsFailure res"

text \<open>\<open>~ScopedResultGuard() { if (EvaluateResult(m_ref)) { m_f(); } }\<close>\<close>

definition ScopedResultGuard_dtor :: "ScopedResultGuard \<Rightarrow> 't frame \<Rightarrow> 't frame" where
  "ScopedResultGuard_dtor g fr =
     (if EvaluateResult g (locals fr (m_ref g)) then fr\<lparr>effects := effects fr @ [m_f g]\<rparr>
      else fr)"

definition EvaluateResultSuccess :: "Result \<Rightarrow> bool" where
  "EvaluateResultSuccess r = R_SUCCEEDED r"

definition EvaluateResultFailure :: "Result \<Rightarrow> bool" where
  "EvaluateResultFailure r = R_FAILED r"

text \<open>
  \<open>UpdateCurrentResultReference<decltype(__TmpCurrentResultReference)>\<close>: the
  specialisation for \<open>Result&\<close> assigns through the reference, the one for
  \<open>const Result\<close> does nothing.
\<close>

definition UpdateCurrentResultReference :: "'t frame \<Rightarrow> Result \<Rightarrow> 't frame" where
  "UpdateCurrentResultReference fr result =
     (case current fr of
        Some result_reference \<Rightarrow> fr\<lparr>locals := (locals fr)(result_reference := result)\<rparr>
      | None \<Rightarrow> fr)"

text \<open>The value read through the name \<open>__TmpCurrentResultReference\<close>.\<close>

definition TmpCurrentResultReference :: "'t frame \<Rightarrow> Result" where
  "TmpCurrentResultReference fr =
     (case current fr of Some a \<Rightarrow> locals fr a | None \<Rightarrow> ResultSuccess)"

text \<open>
  \<open>DECLARE_CURRENT_RESULT_REFERENCE_AND_STORAGE\<close>: \<open>HasPrevRef_N\<close> tells whether the
  name so far denotes a \<open>Result&\<close>; \<open>PrevRef_N\<close> is a new \<open>Result\<close> object initialised
  with the value read through the name; \<open>__tmp_result_N\<close> is a new \<open>Result\<close> object
  initialised with \<open>ResultSuccess\<close>; the name is then declared anew as a \<open>Result&\<close>
  bound to \<open>PrevRef_N\<close> if \<open>HasPrevRef_N\<close> and to \<open>__tmp_result_N\<close> otherwise.
\<close>

definition DECLARE_CURRENT_RESULT_REFERENCE_AND_STORAGE :: "'t frame \<Rightarrow> 't frame" where
  "DECLARE_CURRENT_RESULT_REFERENCE_AND_STORAGE fr =
     (let HasPrevRef = (current fr \<noteq> None);
          PrevRef = next_local fr;
          tmp_result = next_local fr + 1
      in fr\<lparr>locals := (locals fr)(PrevRef := TmpCurrentResultReference fr,
                                    tmp_result := ResultSuccess),
             next_local := next_local fr + 2,
             current := Some (if HasPrevRef then PrevRef else tmp_result)\<rparr>)"

text \<open>
  \<open>ON_RESULT_RETURN_IMPL(EvaluateResult)\<close> followed by the closure: the
  \<open>static_assert\<close> demands that the name denotes a \<open>Result&\<close>, and a guard object on
  that reference is constructed.
\<close>

definition ON_RESULT_RETURN_IMPL ::
  "(Result \<Rightarrow> bool) \<Rightarrow> nat \<Rightarrow> 't frame \<Rightarrow> flow \<times> 't frame" where
  "ON_RESULT_RETURN_IMPL ev f fr =
     (case current fr of
        None \<Rightarrow> (Rejected, fr)
      | Some r \<Rightarrow>
          (Fallthrough,
           fr\<lparr>guard_objs := \<lparr>EvaluateResult = ev, m_ref = r, m_f = f\<rparr> # guard_objs fr\<rparr>))"

definition ON_RESULT_FAILURE_2 :: "nat \<Rightarrow> 't frame \<Rightarrow> flow \<times> 't frame" where
  "ON_RESULT_FAILURE_2 f fr = ON_RESULT_RETURN_IMPL EvaluateResultFailure f fr"

definition ON_RESULT_FAILURE :: "nat \<Rightarrow> 't frame \<Rightarrow> flow \<times> 't frame" where
  "ON_RESULT_FAILURE f fr =
     ON_RESULT_FAILURE_2 f (DECLARE_CURRENT_RESULT_REFERENCE_AND_STORAGE fr)"

definition ON_RESULT_SUCCESS_2 :: "nat \<Rightarrow> 't frame \<Rightarrow> flow \<times> 't frame" where
  "ON_RESULT_SUCCESS_2 f fr = ON_RESULT_RETURN_IMPL EvaluateResultSuccess f fr"

definition ON_RESULT_SUCCESS :: "nat \<Rightarrow> 't frame \<Rightarrow> flow \<times> 't frame" where
  "ON_RESULT_SUCCESS f fr =
     ON_RESULT_SUCCESS_2 f (DECLARE_CURRENT_RESULT_REFERENCE_AND_STORAGE fr)"

text \<open>
  \<open>R_RETURN(res_expr)\<close>: the value is stored through the current reference and
  returned.
\<close>

definition R_RETURN :: "Result \<Rightarrow> 't frame \<Rightarrow> flow \<times> 't frame" where
  "R_RETURN res_expr fr = (Returned res_expr, UpdateCurrentResultReference fr res_expr)"

definition R_SUCCEED :: "'t frame \<Rightarrow> flow \<times> 't frame" where
  "R_SUCCEED fr = R_RETURN ResultSuccess fr"

definition R_THROW :: "Result \<Rightarrow> 't frame \<Rightarrow> flow \<times> 't frame" where
  "R_THROW res_expr fr = R_RETURN res_expr fr"

definition R_UNLESS :: "bool \<Rightarrow> Result \<Rightarrow> 't frame \<Rightarrow> flow \<times> 't frame" where
  "R_UNLESS expr res fr = (if \<not> expr then R_THROW res fr else (Fallthrough, fr))"

definition R_TRY :: "Result \<Rightarrow> 't frame \<Rightarrow> flow \<times> 't frame" where
  "R_TRY res_expr fr =
     (if R_FAILED res_expr then R_THROW res_expr fr else (Fallthrough, fr))"

definition R_SUCCEED_IF :: "bool \<Rightarrow> 't frame \<Rightarrow> flow \<times> 't frame" where
  "R_SUCCEED_IF expr fr = R_UNLESS (\<not> expr) ResultSuccess fr"

text \<open>
  \<open>CASCADE_RESULT(target, source)\<close> and \<open>CASCADE_CODE(source)\<close> leave the function with
  a plain \<open>return\<close>. In the branch of \<open>CASCADE_RESULT\<close> that goes on, \<open>Failed()\<close> is
  false, so \<open>expected\<close> holds the value that \<open>operator*\<close> reads.
\<close>

definition CASCADE_RESULT :: "nat \<Rightarrow> 't ResultVal \<Rightarrow> 't frame \<Rightarrow> flow \<times> 't frame" where
  "CASCADE_RESULT target source fr =
     (if Failed source then (Returned (Code source), fr)
      else (Fallthrough,
            fr\<lparr>vars := (vars fr)(target := (case expected source of
                                              Val v \<Rightarrow> Some v
                                            | Unexpected e \<Rightarrow> None))\<rparr>))"

definition CASCADE_CODE :: "Result \<Rightarrow> 't frame \<Rightarrow> flow \<times> 't frame" where
  "CASCADE_CODE source fr = (if IsError source then (Returned source, fr) else (Fallthrough, fr))"

text \<open>
  Leaving a scope destroys its guard objects in the reverse order of construction.
\<close>

definition leave_scope :: "'t frame \<Rightarrow> 't frame" where
  "leave_scope fr = fold ScopedResultGuard_dtor (guard_objs fr) fr"

text \<open>
  The body of a function is a sequence of statements: the macros, a plain \<open>return\<close>,
  a statement with an effect, and a nested block. The operands of the macros are the
  values their expressions have in the execution at hand, so an \<open>if\<close> or a loop
  appears as the blocks that this execution enters.
\<close>

datatype 't stmt =
    OnResultFailure nat
  | OnResultSuccess nat
  | OnResultFailure2 nat
  | OnResultSuccess2 nat
  | RReturn Result
  | RSucceed
  | RThrow Result
  | RUnless bool Result
  | RTry Result
  | RSucceedIf bool
  | CascadeResult nat "'t ResultVal"
  | CascadeCode Result
  | PlainReturn Result
  | Effect nat
  | Block "'t stmt list"

fun exec :: "'t stmt \<Rightarrow> 't frame \<Rightarrow> flow \<times> 't frame"
  and exec_seq :: "'t stmt list \<Rightarrow> 't frame \<Rightarrow> flow \<times> 't frame" where
  "exec (OnResultFailure f) fr = ON_RESULT_FAILURE f fr"
| "exec (OnResultSuccess f) fr = ON_RESULT_SUCCESS f fr"
| "exec (OnResultFailure2 f) fr = ON_RESULT_FAILURE_2 f fr"
| "exec (OnResultSuccess2 f) fr = ON_RESULT_SUCCESS_2 f fr"
| "exec (RReturn res) fr = R_RETURN res fr"
| "exec RSucceed fr = R_SUCCEED fr"
| "exec (RThrow res) fr = R_THROW res fr"
| "exec (RUnless expr res) fr = R_UNLESS expr res fr"
| "exec (RTry res) fr = R_TRY res fr"
| "exec (RSucceedIf expr) fr = R_SUCCEED_IF expr fr"
| "exec (CascadeResult target source) fr = CASCADE_RESULT target source fr"
| "exec (CascadeCode source) fr = CASCADE_CODE source fr"
| "exec (PlainReturn res) fr = (Returned res, fr)"
| "exec (Effect l) fr = (Fallthrough, fr\<lparr>effects := effects fr @ [l]\<rparr>)"
| "exec (Block body) fr =
     (case exec_seq body (fr\<lparr>guard_objs := []\<rparr>) of
        (Rejected, fr') \<Rightarrow> (Rejected, fr')
      | (fl, fr') \<Rightarrow> (fl, (leave_scope fr')\<lparr>guard_objs := guard_objs fr, current := current fr\<rparr>))"
| "exec_seq [] fr = (Fallthrough, fr)"
| "exec_seq (s # ss) fr =
     (case exec s fr of
        (Fallthrough, fr') \<Rightarrow> exec_seq ss fr'
      | (fl, fr') \<Rightarrow> (fl, fr'))"

text \<open>
  A call enters the body, as its outermost block, with no local declared: the name
  \<open>__TmpCurrentResultReference\<close> denotes the namespace-scope constant.
\<close>

definition entry :: "'t frame" where
  "entry = \<lparr>locals = (\<lambda>a. ResultSuccess), next_local = 0, current = None, guard_objs = [],
            vars = (\<lambda>x. None), effects = []\<rparr>"

definition call :: "'t stmt list \<Rightarrow> flow \<times> 't frame" where
  "call body = exec (Block body) entry"


text \<open>
  Statements that leave the function through \<open>R_RETURN\<close> only and declare no new
  current result reference: the \<open>R_\<close> macros, the \<open>_2\<close> forms of the guards, effects,
  and blocks of such statements.
\<close>

fun tracked :: "'t stmt \<Rightarrow> bool" where
  "tracked (OnResultFailure f) = False"
| "tracked (OnResultSuccess f) = False"
| "tracked (OnResultFailure2 f) = True"
| "tracked (OnResultSuccess2 f) = True"
| "tracked (RReturn res) = True"
| "tracked RSucceed = True"
| "tracked (RThrow res) = True"
| "tracked (RUnless expr res) = True"
| "tracked (RTry res) = True"
| "tracked (RSucceedIf expr) = True"
| "tracked (CascadeResult target source) = False"
| "tracked (CascadeCode source) = False"
| "tracked (PlainReturn res) = False"
| "tracked (Effect l) = True"
| "tracked (Block body) = (\<forall>s \<in> set body. tracked s)"

text \<open>The labels of the closures and effects that occur in a statement.\<close>

fun labels :: "'t stmt \<Rightarrow> nat set" where
  "labels (OnResultFailure f) = {f}"
| "labels (OnResultSuccess f) = {f}"
| "labels (OnResultFailure2 f) = {f}"
| "labels (OnResultSuccess2 f) = {f}"
| "labels (Effect l) = {l}"
| "labels (Block body) = (\<Union>s \<in> set body. labels s)"
| "labels s = {}"

text \<open>
  A position in a body: at this level between the statements \<open>before\<close> and \<open>after\<close>, or
  inside a block that stands between them. \<open>plug\<close> puts a statement there, \<open>reached\<close>
  tells whether control started in a frame gets there, \<open>cut_after\<close> drops every statement
  that follows the position.
\<close>

datatype 't position =
    Here "'t stmt list" "'t stmt list"
  | Inside "'t stmt list" "'t position" "'t stmt list"

fun plug :: "'t position \<Rightarrow> 't stmt \<Rightarrow> 't stmt list" where
  "plug (Here before after) p = before @ p # after"
| "plug (Inside before pos after) p = before @ Block (plug pos p) # after"

fun reached :: "'t position \<Rightarrow> 't frame \<Rightarrow> bool" where
  "reached (Here before after) fr = (fst (exec_seq before fr) = Fallthrough)"
| "reached (Inside before pos after) fr =
     (case exec_seq before fr of
        (Fallthrough, fr') \<Rightarrow> reached pos (fr'\<lparr>guard_objs := []\<rparr>)
      | (fl, fr') \<Rightarrow> False)"

fun cut_after :: "'t position \<Rightarrow> 't position" where
  "cut_after (Here before after) = Here before []"
| "cut_after (Inside before pos after) = Inside before (cut_after pos) []"

section \<open>Properties\<close>

subsection \<open>The bit-fields as truncations\<close>

lemma FormatValue_module: "FormatValue 0 module_bits m = take_bit 9 m"
  by (simp add: FormatValue_def BitField_mask_def module_bits_def take_bit_eq_mask)

lemma FormatValue_description: "FormatValue 9 13 d = push_bit 9 (take_bit 13 d)"
  by (rule bit_word_eqI) (auto simp add: FormatValue_def BitField_mask_def bit_simps)

lemma ExtractValue_module: "ExtractValue 0 module_bits w = take_bit 9 w"
  by (simp add: ExtractValue_def BitField_mask_def module_bits_def take_bit_eq_mask)

lemma ExtractValue_description: "ExtractValue 9 13 w = take_bit 13 (drop_bit 9 w)"
  by (rule bit_word_eqI) (auto simp add: ExtractValue_def BitField_mask_def bit_simps)

lemma raw_Result: "raw (Result m d) = take_bit 9 m OR push_bit 9 (take_bit 13 d)"
  by (simp add: Result_def FormatValue_module FormatValue_description)

lemma module_Result: "module (Result m d) = take_bit 9 m"
  unfolding module_def raw_Result ExtractValue_module
  by (rule bit_word_eqI) (auto simp add: bit_simps)

lemma description_Result: "description (Result m d) = take_bit 13 d"
  unfolding description_def raw_Result ExtractValue_description
  by (rule bit_word_eqI) (auto simp add: bit_simps)

lemma high_bits_Result: "drop_bit 22 (raw (Result m d)) = 0"
  unfolding raw_Result
  by (rule bit_word_eqI) (auto simp add: bit_simps)

lemma fits_module: "take_bit 9 (m::u32) = m \<longleftrightarrow> m \<le> 511"
proof -
  have "take_bit 9 m = m \<longleftrightarrow> uint m < 2 ^ 9"
    by (simp add: take_bit_eq_mask mask_eq_iff)
  also have "\<dots> \<longleftrightarrow> m \<le> 511"
    by (auto simp add: word_le_def)
  finally show ?thesis .
qed

lemma fits_description: "take_bit 13 (d::u32) = d \<longleftrightarrow> d \<le> 8191"
proof -
  have "take_bit 13 d = d \<longleftrightarrow> uint d < 2 ^ 13"
    by (simp add: take_bit_eq_mask mask_eq_iff)
  also have "\<dots> \<longleftrightarrow> d \<le> 8191"
    by (auto simp add: word_le_def)
  finally show ?thesis .
qed

lemma raw_Result_zero_iff: "raw (Result m d) = 0 \<longleftrightarrow> take_bit 9 m = 0 \<and> take_bit 13 d = 0"
proof
  assume z: "raw (Result m d) = 0"
  have "module (Result m d) = 0" "description (Result m d) = 0"
    by (simp_all add: module_def description_def z ExtractValue_def)
  then show "take_bit 9 m = 0 \<and> take_bit 13 d = 0"
    by (simp add: module_Result description_Result)
next
  assume "take_bit 9 m = 0 \<and> take_bit 13 d = 0"
  then show "raw (Result m d) = 0"
    by (simp add: raw_Result)
qed

lemma GetInnerValue_take_bit: "GetInnerValue r = take_bit 22 (raw r)"
  unfolding GetInnerValue_def module_def description_def ExtractValue_module
    ExtractValue_description
  by (rule bit_word_eqI) (auto simp add: bit_simps module_bits_def)

lemma fields_of_inner:
  "take_bit 9 (take_bit 22 w) = take_bit 9 (w::u32)"
  "take_bit 13 (drop_bit 9 (take_bit 22 w)) = take_bit 13 (drop_bit 9 w)"
  by (rule bit_word_eqI; auto simp add: bit_simps)+

lemma inner_of_fields:
  "take_bit 22 (w::u32) = take_bit 9 w OR push_bit 9 (take_bit 13 (drop_bit 9 w))"
  by (rule bit_word_eqI) (auto simp add: bit_simps)

lemma Result_Includes_fields:
  "Result_Includes a b \<longleftrightarrow> module a = module b \<and> description a = description b"
proof
  assume "Result_Includes a b"
  then have e: "take_bit 22 (raw a) = take_bit 22 (raw b)"
    by (simp add: Result_Includes_def GetInnerValue_take_bit)
  have "take_bit 9 (take_bit 22 (raw a)) = take_bit 9 (take_bit 22 (raw b))"
    "take_bit 13 (drop_bit 9 (take_bit 22 (raw a))) = take_bit 13 (drop_bit 9 (take_bit 22 (raw b)))"
    by (simp_all only: e)
  then show "module a = module b \<and> description a = description b"
    by (simp only: fields_of_inner module_def description_def ExtractValue_module
        ExtractValue_description)
next
  assume "module a = module b \<and> description a = description b"
  then show "Result_Includes a b"
    by (simp add: Result_Includes_def GetInnerValue_def)
qed

subsection \<open>Packing and unpacking\<close>

text \<open>
  Claim C1. For a module \<open>m\<close> in \<open>[0, 511]\<close> and a description \<open>d\<close> in \<open>[0, 8191]\<close>,
  \<open>Result(m, d)\<close> has the raw word \<open>m | (d << 9)\<close>: the module in the low 9 bits, the
  description in bits 9 to 21, bits 22 to 31 zero; the two bit-fields read back \<open>m\<close> and
  \<open>d\<close>. With \<open>FS = 2\<close>, \<open>Result(ErrorModule::FS, 42).raw\<close> is \<open>42 << 9 | 2\<close>.
\<close>

theorem Result_pack_layout:
  assumes "m \<le> 511" and "d \<le> 8191"
  shows "raw (Result m d) = (m OR push_bit 9 d)
       \<and> take_bit 9 (raw (Result m d)) = m
       \<and> take_bit 13 (drop_bit 9 (raw (Result m d))) = d
       \<and> drop_bit 22 (raw (Result m d)) = 0
       \<and> module (Result m d) = m
       \<and> description (Result m d) = d
       \<and> ErrorModule_FS = 2
       \<and> raw (Result ErrorModule_FS 42) = (push_bit 9 42 OR 2)"
proof -
  have m: "take_bit 9 m = m" and d: "take_bit 13 d = d"
    using assms by (simp_all add: fits_module fits_description)
  have r: "raw (Result m d) = (m OR push_bit 9 d)"
    by (simp add: raw_Result m d)
  have f: "module (Result m d) = m" "description (Result m d) = d"
    by (simp_all add: module_Result description_Result m d)
  have l: "take_bit 9 (raw (Result m d)) = m" "take_bit 13 (drop_bit 9 (raw (Result m d))) = d"
    using f by (simp_all add: module_def description_def ExtractValue_module
        ExtractValue_description)
  have fs: "raw (Result ErrorModule_FS 42) = (push_bit 9 42 OR 2)"
    by (simp add: raw_Result ErrorModule_FS_def)
  have e: "ErrorModule_FS = 2"
    by (simp add: ErrorModule_FS_def)
  show ?thesis
    using r l f fs e high_bits_Result [of m d] by blast
qed

theorem Result_pack_layout_witness:
  "(2::u32) \<le> 511 \<and> (42::u32) \<le> 8191 \<and> raw (Result 2 42) = 21506
   \<and> module (Result 2 42) = 2 \<and> description (Result 2 42) = 42"
  using Result_pack_layout [of 2 42] by (simp add: ErrorModule_FS_def)

subsection \<open>Success is the zero word\<close>

text \<open>
  Claim C2. \<open>Result(ErrorModule::Common, 0)\<close> has raw word 0, and this is the only
  success: \<open>IsSuccess(r)\<close> holds exactly when \<open>r.raw\<close> is 0, that is when \<open>r\<close> is
  \<open>ResultSuccess\<close> (by \<open>operator==\<close> as well); it is false whenever the fields of \<open>r\<close> are not \<open>(Common, 0)\<close>, and
  false for \<open>Result(m, d)\<close> with \<open>m\<close>, \<open>d\<close> in range and \<open>(m, d)\<close> other than \<open>(0, 0)\<close>.
  Exactly one of \<open>IsSuccess(r)\<close> and \<open>IsFailure(r)\<close> holds.
\<close>

theorem IsSuccess_unique:
  "raw (Result ErrorModule_Common 0) = 0
   \<and> (IsSuccess r \<longleftrightarrow> raw r = 0)
   \<and> (IsSuccess r \<longleftrightarrow> r = ResultSuccess)
   \<and> (IsSuccess r \<longleftrightarrow> Result_eq r ResultSuccess)
   \<and> ((module r, description r) \<noteq> (ErrorModule_Common, 0) \<longrightarrow> \<not> IsSuccess r)
   \<and> (m \<le> 511 \<and> d \<le> 8191 \<and> (m, d) \<noteq> (ErrorModule_Common, 0) \<longrightarrow> \<not> IsSuccess (Result m d))
   \<and> (IsSuccess r \<longleftrightarrow> \<not> IsFailure r)
   \<and> (IsFailure r \<longleftrightarrow> \<not> IsSuccess r)
   \<and> raw ResultSuccess = 0
   \<and> ResultSuccess = Result ErrorModule_Common 0"
proof -
  have z: "raw (Result ErrorModule_Common 0) = 0"
    by (simp add: raw_Result ErrorModule_Common_def)
  have u: "IsSuccess r \<longleftrightarrow> r = ResultSuccess"
    by (cases r) (simp add: IsSuccess_def ResultSuccess_def Result_raw_def)
  have f: "(module r, description r) \<noteq> (ErrorModule_Common, 0) \<longrightarrow> \<not> IsSuccess r"
    by (auto simp add: IsSuccess_def module_def description_def ExtractValue_def
        ErrorModule_Common_def)
  have c: "m \<le> 511 \<and> d \<le> 8191 \<and> (m, d) \<noteq> (ErrorModule_Common, 0) \<longrightarrow> \<not> IsSuccess (Result m d)"
    using fits_module [of m] fits_description [of d]
    by (auto simp add: IsSuccess_def raw_Result_zero_iff ErrorModule_Common_def)
  have s: "ResultSuccess = Result ErrorModule_Common 0"
    using z by (simp add: ResultSuccess_def Result_raw_def Result_def)
  have r: "IsSuccess r \<longleftrightarrow> raw r = 0" "IsSuccess r \<longleftrightarrow> \<not> IsFailure r"
    "IsFailure r \<longleftrightarrow> \<not> IsSuccess r" "raw ResultSuccess = 0"
    "IsSuccess r \<longleftrightarrow> Result_eq r ResultSuccess"
    by (simp_all add: IsSuccess_def IsFailure_def ResultSuccess_def Result_raw_def Result_eq_def)
  show ?thesis
    using z u f c s r by blast
qed

theorem IsSuccess_unique_witness:
  "(module (Result 2 42), description (Result 2 42)) \<noteq> (ErrorModule_Common, 0)
   \<and> (2::u32) \<le> 511 \<and> (42::u32) \<le> 8191 \<and> (2::u32, 42::u32) \<noteq> (ErrorModule_Common, 0)
   \<and> \<not> IsSuccess (Result 2 42) \<and> IsFailure (Result 2 42)"
  using IsSuccess_unique [of "Result 2 42" 2 42]
  by (simp add: module_Result description_Result ErrorModule_Common_def IsFailure_def
      IsSuccess_def raw_Result)

subsection \<open>Result::Includes\<close>

text \<open>
  Claim C9. \<open>a.Includes(b)\<close> holds exactly when the module and description bit-fields of
  \<open>a\<close> and \<open>b\<close> agree, which is agreement of the two raw words on their low 22 bits;
  on words built by the two-argument constructor it is equality of the raw words.
\<close>

theorem Result_Includes_exact:
  "(Result_Includes a b \<longleftrightarrow> module a = module b \<and> description a = description b)
   \<and> (Result_Includes a b \<longleftrightarrow> take_bit 22 (raw a) = take_bit 22 (raw b))
   \<and> (Result_Includes (Result m d) (Result m' d') \<longleftrightarrow> raw (Result m d) = raw (Result m' d'))"
proof -
  have h: "take_bit 22 (raw (Result x y)) = raw (Result x y)" for x y
    unfolding raw_Result by (rule bit_word_eqI) (auto simp add: bit_simps)
  show ?thesis
    by (simp add: Result_Includes_fields [symmetric])
       (simp add: Result_Includes_def GetInnerValue_take_bit h)
qed

subsection \<open>ResultRange\<close>

text \<open>
  Claim C8. Converting \<open>ResultRange(M, lo, hi)\<close> to \<open>Result\<close> gives \<open>Result(M, lo)\<close>,
  whatever \<open>hi\<close> is: the description of the converted value is the lower bound.
\<close>

theorem ResultRange_converts_to_lower_bound:
  "ResultRange_to_Result (ResultRange M lo hi) = Result M lo
   \<and> ResultRange_to_Result (ResultRange M lo hi) = ResultRange_to_Result (ResultRange M lo hi')
   \<and> module (ResultRange_to_Result (ResultRange M lo hi)) = take_bit 9 M
   \<and> description (ResultRange_to_Result (ResultRange M lo hi)) = take_bit 13 lo
   \<and> (M \<le> 511 \<and> lo \<le> 8191 \<longrightarrow>
        module (ResultRange_to_Result (ResultRange M lo hi)) = M
        \<and> description (ResultRange_to_Result (ResultRange M lo hi)) = lo)"
  using fits_module [of M] fits_description [of lo]
  by (simp add: ResultRange_to_Result_def ResultRange_def module_Result description_Result)

theorem ResultRange_converts_to_lower_bound_witness:
  "(2::u32) \<le> 511 \<and> (10::u32) \<le> 8191
   \<and> ResultRange_to_Result (ResultRange 2 10 50) = Result 2 10
   \<and> description (ResultRange_to_Result (ResultRange 2 10 50)) = 10"
  using ResultRange_converts_to_lower_bound [of 2 10 50 50]
  by (simp add: description_Result)

text \<open>
  Claim C7, as stated, at the module \<open>GeneralWebApplet = 800\<close>. The 9-bit module field of
  the stored code holds \<open>800 mod 512 = 288\<close>, so \<open>ResultRange(GeneralWebApplet, 0, 0)\<close>
  includes the Result with raw word 288, whose module field is 288 and not 800.
\<close>

theorem ResultRange_Includes_counterexample:
  "\<not> (ResultRange_Includes (ResultRange ErrorModule_GeneralWebApplet 0 0) (Result_raw 288)
       \<longleftrightarrow> module (Result_raw 288) = ErrorModule_GeneralWebApplet
            \<and> 0 \<le> description (Result_raw 288) \<and> description (Result_raw 288) \<le> 0)"
proof -
  have "module (Result_raw 288) = 288" "description (Result_raw 288) = 0"
    by (simp_all add: module_def description_def Result_raw_def ExtractValue_module
        ExtractValue_description)
  moreover have "module (Result ErrorModule_GeneralWebApplet 0) = 288"
    "description (Result ErrorModule_GeneralWebApplet 0) = 0"
    by (simp_all add: module_Result description_Result ErrorModule_GeneralWebApplet_def)
  ultimately show ?thesis
    by (simp add: ResultRange_Includes_def ResultRange_def ErrorModule_GeneralWebApplet_def)
qed

text \<open>
  Claim C7, amended. \<open>ResultRange(M, lo, hi).Includes(r)\<close> holds exactly when the module
  field of \<open>r\<close> is \<open>M\<close> truncated to 9 bits and the description field of \<open>r\<close> lies between
  \<open>lo\<close> truncated to 13 bits and \<open>hi\<close>. For \<open>M\<close> in \<open>[0, 511]\<close> and \<open>lo\<close> in \<open>[0, 8191]\<close>
  that is: the module field of \<open>r\<close> is \<open>M\<close> and \<open>lo \<le> r.description \<le> hi\<close>; and it is
  false for every \<open>r\<close> whose module field differs from such an \<open>M\<close>.
\<close>

theorem ResultRange_Includes_fields:
  "(ResultRange_Includes (ResultRange M lo hi) r \<longleftrightarrow>
      module r = take_bit 9 M \<and> take_bit 13 lo \<le> description r \<and> description r \<le> hi)
   \<and> (M \<le> 511 \<and> lo \<le> 8191 \<longrightarrow>
       (ResultRange_Includes (ResultRange M lo hi) r \<longleftrightarrow>
          module r = M \<and> lo \<le> description r \<and> description r \<le> hi))
   \<and> (M \<le> 511 \<and> module r \<noteq> M \<longrightarrow> \<not> ResultRange_Includes (ResultRange M lo hi) r)"
  using fits_module [of M] fits_description [of lo]
  by (auto simp add: ResultRange_Includes_def ResultRange_def module_Result description_Result)

theorem ResultRange_Includes_fields_witness:
  "(2::u32) \<le> 511 \<and> (10::u32) \<le> 8191
   \<and> ResultRange_Includes (ResultRange 2 10 50) (Result 2 42)
   \<and> \<not> ResultRange_Includes (ResultRange 2 10 50) (Result 2 51)
   \<and> module (Result 3 42) \<noteq> 2
   \<and> \<not> ResultRange_Includes (ResultRange 2 10 50) (Result 3 42)"
  using ResultRange_Includes_fields [of 2 10 50 "Result 2 42"]
    ResultRange_Includes_fields [of 2 10 50 "Result 2 51"]
    ResultRange_Includes_fields [of 2 10 50 "Result 3 42"]
  by (simp add: module_Result description_Result)

subsection \<open>ResultVal\<close>

text \<open>
  Claim C5. A \<open>ResultVal<T>\<close> constructed from a code \<open>E\<close> has \<open>Failed()\<close> true,
  \<open>Succeeded()\<close> and \<open>operator bool\<close> false, and \<open>Code()\<close> equal to \<open>E\<close>; \<open>Unwrap()\<close>
  fails its assertion and yields no value. This holds for every \<open>E\<close>, so in particular
  for every \<open>E\<close> other than \<open>ResultSuccess\<close>.
\<close>

theorem ResultVal_failure_state:
  "Failed (ResultVal_of_code E)
   \<and> \<not> Succeeded (ResultVal_of_code E)
   \<and> \<not> ResultVal_bool (ResultVal_of_code E)
   \<and> Code (ResultVal_of_code E) = E
   \<and> Unwrap (ResultVal_of_code E) = Inl (AssertionFailure ''Tried to Unwrap empty ResultVal'')
   \<and> (\<forall>v. Unwrap (ResultVal_of_code E) \<noteq> Inr v)"
  by (simp add: Failed_def Succeeded_def ResultVal_bool_def Code_def Unwrap_def
      ResultVal_of_code_def ASSERT_MSG_def)

text \<open>
  Claim C6, as stated, at \<open>T = Result\<close> and \<open>v = Result(FS, 42)\<close>. The argument has type
  \<open>Result\<close>, so \<open>ResultVal(Result code)\<close> is the constructor called and the object is in
  the failure state: \<open>Succeeded()\<close> and \<open>operator bool\<close> are false, \<open>Code()\<close> is \<open>v\<close> and
  not \<open>ResultSuccess\<close>, \<open>Unwrap()\<close> fails its assertion, and \<open>ValueOr\<close> returns the
  fallback and not \<open>v\<close>.
\<close>

theorem ResultVal_construct_counterexample:
  "\<not> Succeeded (ResultVal_construct (T_Result (Result ErrorModule_FS 42) :: unit T_value))
   \<and> \<not> ResultVal_bool (ResultVal_construct (T_Result (Result ErrorModule_FS 42) :: unit T_value))
   \<and> Code (ResultVal_construct (T_Result (Result ErrorModule_FS 42) :: unit T_value))
       = Result ErrorModule_FS 42
   \<and> Code (ResultVal_construct (T_Result (Result ErrorModule_FS 42) :: unit T_value))
       \<noteq> ResultSuccess
   \<and> Unwrap (ResultVal_construct (T_Result (Result ErrorModule_FS 42) :: unit T_value))
       = Inl (AssertionFailure ''Tried to Unwrap empty ResultVal'')
   \<and> ValueOr (ResultVal_construct (T_Result (Result ErrorModule_FS 42) :: unit T_value))
         (T_Result ResultSuccess)
       \<noteq> T_Result (Result ErrorModule_FS 42)"
proof -
  have "raw (Result ErrorModule_FS 42) \<noteq> 0"
    by (simp add: raw_Result ErrorModule_FS_def)
  then have "Result ErrorModule_FS 42 \<noteq> ResultSuccess"
    by (auto simp add: ResultSuccess_def Result_raw_def)
  then show ?thesis
    by (simp add: Succeeded_def ResultVal_bool_def Code_def Unwrap_def ValueOr_def
        ResultVal_of_code_def ASSERT_MSG_def)
qed

text \<open>
  Claim C6, amended. For every type \<open>T\<close> other than \<open>Result\<close> and \<open>ResultRange\<close> and
  every value \<open>v\<close> of \<open>T\<close>, a \<open>ResultVal<T>\<close> constructed from \<open>v\<close> has \<open>Succeeded()\<close> and
  \<open>operator bool\<close> true, \<open>Code()\<close> equal to \<open>ResultSuccess\<close>, \<open>Unwrap()\<close> returning \<open>v\<close>,
  and \<open>ValueOr(fallback)\<close> returning \<open>v\<close> whatever the fallback. For \<open>T = Result\<close> the
  object is in the failure state with \<open>Code()\<close> equal to \<open>v\<close>, and for \<open>T = ResultRange\<close>
  in the failure state with \<open>Code()\<close> equal to the conversion of \<open>v\<close>; in both
  \<open>Unwrap()\<close> fails its assertion and \<open>ValueOr(fallback)\<close> returns the fallback.
\<close>

theorem ResultVal_construct_roundtrip:
  "Succeeded (ResultVal_construct (T_other v))
   \<and> ResultVal_bool (ResultVal_construct (T_other v))
   \<and> \<not> Failed (ResultVal_construct (T_other v))
   \<and> Code (ResultVal_construct (T_other v)) = ResultSuccess
   \<and> Unwrap (ResultVal_construct (T_other v)) = Inr (T_other v)
   \<and> ValueOr (ResultVal_construct (T_other v)) fallback = T_other v
   \<and> Failed (ResultVal_construct (T_Result c) :: 'u T_value ResultVal)
   \<and> Code (ResultVal_construct (T_Result c) :: 'u T_value ResultVal) = c
   \<and> Unwrap (ResultVal_construct (T_Result c) :: 'u T_value ResultVal)
       = Inl (AssertionFailure ''Tried to Unwrap empty ResultVal'')
   \<and> ValueOr (ResultVal_construct (T_Result c)) fallback = fallback
   \<and> Failed (ResultVal_construct (T_ResultRange rg) :: 'u T_value ResultVal)
   \<and> Code (ResultVal_construct (T_ResultRange rg) :: 'u T_value ResultVal)
       = ResultRange_to_Result rg
   \<and> Unwrap (ResultVal_construct (T_ResultRange rg) :: 'u T_value ResultVal)
       = Inl (AssertionFailure ''Tried to Unwrap empty ResultVal'')
   \<and> ValueOr (ResultVal_construct (T_ResultRange rg)) fallback = fallback"
  by (simp add: Failed_def Succeeded_def ResultVal_bool_def Code_def Unwrap_def
      ResultVal_of_val_def ResultVal_of_code_def ResultVal_of_range_def ASSERT_MSG_def
      ValueOr_def)

text \<open>
  Claim C10. Constructing a \<open>ResultVal<T>\<close> from \<open>ResultSuccess\<close> meets no check and gives
  an object in the failure state (\<open>Succeeded()\<close> false, \<open>Failed()\<close> true, \<open>operator bool\<close>
  false) whose \<open>Code()\<close> is \<open>ResultSuccess\<close>, the same code a held value reports, while the
  object differs from every object holding a value.
\<close>

theorem ResultVal_of_ResultSuccess_is_failed:
  "\<not> Succeeded (ResultVal_of_code ResultSuccess)
   \<and> Failed (ResultVal_of_code ResultSuccess)
   \<and> \<not> ResultVal_bool (ResultVal_of_code ResultSuccess)
   \<and> Code (ResultVal_of_code ResultSuccess) = ResultSuccess
   \<and> Code (ResultVal_of_code ResultSuccess) = Code (ResultVal_of_val v)
   \<and> ResultVal_of_code ResultSuccess \<noteq> ResultVal_of_val v"
  by (simp add: Failed_def Succeeded_def ResultVal_bool_def Code_def
      ResultVal_of_code_def ResultVal_of_val_def)

subsection \<open>Invariants of execution\<close>

lemmas macro_defs =
  ON_RESULT_FAILURE_def ON_RESULT_SUCCESS_def ON_RESULT_FAILURE_2_def ON_RESULT_SUCCESS_2_def
  ON_RESULT_RETURN_IMPL_def DECLARE_CURRENT_RESULT_REFERENCE_AND_STORAGE_def
  R_RETURN_def R_SUCCEED_def R_THROW_def R_UNLESS_def R_TRY_def R_SUCCEED_IF_def
  CASCADE_RESULT_def CASCADE_CODE_def UpdateCurrentResultReference_def

lemma fold_ScopedResultGuard_dtor:
  "fold ScopedResultGuard_dtor gs fr =
     fr\<lparr>effects := effects fr @ map m_f (filter (\<lambda>g. EvaluateResult g (locals fr (m_ref g))) gs)\<rparr>"
  by (induction gs arbitrary: fr) (simp_all add: ScopedResultGuard_dtor_def)

lemma leave_scope_eq:
  "leave_scope fr =
     fr\<lparr>effects := effects fr @
           map m_f (filter (\<lambda>g. EvaluateResult g (locals fr (m_ref g))) (guard_objs fr))\<rparr>"
  by (simp add: leave_scope_def fold_ScopedResultGuard_dtor)

lemma count_list_map_filter:
  "count_list (map h (filter P xs)) y = length (filter P (filter (\<lambda>x. h x = y) xs))"
  by (induction xs) simp_all

lemma exec_seq_append:
  "exec_seq (xs @ ys) fr =
     (case exec_seq xs fr of (Fallthrough, fr') \<Rightarrow> exec_seq ys fr' | (fl, fr') \<Rightarrow> (fl, fr'))"
  by (induction xs arbitrary: fr) (auto split: prod.splits flow.splits)

lemma fresh_label_untouched:
  fixes s :: "'t stmt" and ss :: "'t stmt list" and fr :: "'t frame"
  shows "f \<notin> labels s \<Longrightarrow> exec s fr = (fl, fr') \<Longrightarrow>
           count_list (effects fr') f = count_list (effects fr) f \<and>
           (fl \<noteq> Rejected \<longrightarrow>
              filter (\<lambda>g. m_f g = f) (guard_objs fr') = filter (\<lambda>g. m_f g = f) (guard_objs fr))"
    and "f \<notin> (\<Union>s \<in> set ss. labels s) \<Longrightarrow> exec_seq ss fr = (fl, fr') \<Longrightarrow>
           count_list (effects fr') f = count_list (effects fr) f \<and>
           (fl \<noteq> Rejected \<longrightarrow>
              filter (\<lambda>g. m_f g = f) (guard_objs fr') = filter (\<lambda>g. m_f g = f) (guard_objs fr))"
proof (induction s fr and ss fr arbitrary: fl fr' and fl fr' rule: exec_exec_seq.induct)
  case (15 body fr)
  obtain fl1 fr1 where e: "exec_seq body (fr\<lparr>guard_objs := []\<rparr>) = (fl1, fr1)"
    by (cases "exec_seq body (fr\<lparr>guard_objs := []\<rparr>)")
  from "15.prems"(1) have "f \<notin> (\<Union>s \<in> set body. labels s)" by simp
  from "15.IH" [OF this e]
  have c: "count_list (effects fr1) f = count_list (effects fr) f"
    and g: "fl1 \<noteq> Rejected \<longrightarrow> filter (\<lambda>g. m_f g = f) (guard_objs fr1) = []"
    by simp_all
  show ?case
  proof (cases "fl1 = Rejected")
    case True
    with "15.prems"(2) e c show ?thesis by auto
  next
    case False
    with "15.prems"(2) e
    have r: "fl = fl1" "fr' = (leave_scope fr1)\<lparr>guard_objs := guard_objs fr, current := current fr\<rparr>"
      by (auto split: flow.splits)
    from False g have "filter (\<lambda>g. m_f g = f) (guard_objs fr1) = []" by simp
    then show ?thesis
      using r c by (simp add: leave_scope_eq count_list_map_filter)
  qed
next
  case (17 s ss fr)
  obtain fl1 fr1 where e: "exec s fr = (fl1, fr1)"
    by (cases "exec s fr")
  from "17.prems"(1) have n: "f \<notin> labels s" "f \<notin> (\<Union>s \<in> set ss. labels s)" by simp_all
  note h = "17.IH"(1) [OF n(1) e]
  show ?case
  proof (cases "fl1 = Fallthrough")
    case True
    with "17.prems"(2) e have "exec_seq ss fr1 = (fl, fr')" by simp
    from "17.IH"(2) [OF e [symmetric] True n(2) this] h True show ?thesis by simp
  next
    case False
    with "17.prems"(2) e have "fl = fl1" "fr' = fr1" by (auto split: flow.splits)
    with h show ?thesis by simp
  qed
qed (auto simp add: macro_defs Let_def split: option.splits if_splits)

lemma tracked_keeps_result:
  fixes s :: "'t stmt" and ss :: "'t stmt list" and fr :: "'t frame"
  shows "tracked s \<Longrightarrow> current fr = Some a \<Longrightarrow> exec s fr = (fl, fr') \<Longrightarrow>
           fl \<noteq> Rejected \<and> current fr' = Some a \<and> (\<forall>r. fl = Returned r \<longrightarrow> locals fr' a = r)"
    and "\<forall>s \<in> set ss. tracked s \<Longrightarrow> current fr = Some a \<Longrightarrow> exec_seq ss fr = (fl, fr') \<Longrightarrow>
           fl \<noteq> Rejected \<and> current fr' = Some a \<and> (\<forall>r. fl = Returned r \<longrightarrow> locals fr' a = r)"
proof (induction s fr and ss fr arbitrary: fl fr' and fl fr' rule: exec_exec_seq.induct)
  case (15 body fr)
  obtain fl1 fr1 where e: "exec_seq body (fr\<lparr>guard_objs := []\<rparr>) = (fl1, fr1)"
    by (cases "exec_seq body (fr\<lparr>guard_objs := []\<rparr>)")
  from "15.prems"(1) have t: "\<forall>s \<in> set body. tracked s" by simp
  from "15.prems"(2) have "current (fr\<lparr>guard_objs := []\<rparr>) = Some a" by simp
  from "15.IH" [OF t this e]
  have h: "fl1 \<noteq> Rejected" "current fr1 = Some a" "\<forall>r. fl1 = Returned r \<longrightarrow> locals fr1 a = r"
    by simp_all
  with "15.prems"(3) e
  have "fl = fl1" "fr' = (leave_scope fr1)\<lparr>guard_objs := guard_objs fr, current := current fr\<rparr>"
    by (auto split: flow.splits)
  with h "15.prems"(2) show ?case
    by (simp add: leave_scope_eq)
next
  case (17 s ss fr)
  obtain fl1 fr1 where e: "exec s fr = (fl1, fr1)"
    by (cases "exec s fr")
  from "17.prems"(1) have t: "tracked s" "\<forall>s \<in> set ss. tracked s" by simp_all
  note h = "17.IH"(1) [OF t(1) "17.prems"(2) e]
  show ?case
  proof (cases "fl1 = Fallthrough")
    case True
    with "17.prems"(3) e have "exec_seq ss fr1 = (fl, fr')" by simp
    from "17.IH"(2) [OF e [symmetric] True t(2) _ this] h show ?thesis by simp
  next
    case False
    with "17.prems"(3) e have "fl = fl1" "fr' = fr1" by (auto split: flow.splits)
    with h show ?thesis by simp
  qed
qed (auto simp add: macro_defs Let_def split: option.splits if_splits)

lemma tracked_fallthrough_locals:
  fixes s :: "'t stmt" and ss :: "'t stmt list" and fr :: "'t frame"
  shows "tracked s \<Longrightarrow> exec s fr = (Fallthrough, fr') \<Longrightarrow> locals fr' = locals fr"
    and "\<forall>s \<in> set ss. tracked s \<Longrightarrow> exec_seq ss fr = (Fallthrough, fr') \<Longrightarrow>
           locals fr' = locals fr"
proof (induction s fr and ss fr arbitrary: fr' and fr' rule: exec_exec_seq.induct)
  case (15 body fr)
  obtain fl1 fr1 where e: "exec_seq body (fr\<lparr>guard_objs := []\<rparr>) = (fl1, fr1)"
    by (cases "exec_seq body (fr\<lparr>guard_objs := []\<rparr>)")
  with "15.prems"(2)
  have "fl1 = Fallthrough"
    "fr' = (leave_scope fr1)\<lparr>guard_objs := guard_objs fr, current := current fr\<rparr>"
    by (auto split: flow.splits)
  moreover from "15.prems"(1) have "\<forall>s \<in> set body. tracked s" by simp
  ultimately show ?case
    using "15.IH" [of fr1] e by (simp add: leave_scope_eq)
next
  case (17 s ss fr)
  obtain fl1 fr1 where e: "exec s fr = (fl1, fr1)"
    by (cases "exec s fr")
  with "17.prems"(2) have f: "fl1 = Fallthrough" and r: "exec_seq ss fr1 = (Fallthrough, fr')"
    by (auto split: flow.splits)
  from "17.prems"(1) have t: "tracked s" "\<forall>s \<in> set ss. tracked s" by simp_all
  from "17.IH"(1) [OF t(1) e [unfolded f]] "17.IH"(2) [OF e [symmetric] f t(2) r]
  show ?case by simp
qed (auto simp add: macro_defs Let_def split: option.splits if_splits)

subsection \<open>Calls and positions\<close>

lemma entry_guard_objs: "(entry :: 't frame)\<lparr>guard_objs := []\<rparr> = entry"
  by (simp add: entry_def)

lemma entry_fields:
  "guard_objs entry = []" "current entry = None" "effects entry = []"
  by (simp_all add: entry_def)

lemma call_eq:
  "call body =
     (case exec_seq body entry of
        (Rejected, fr') \<Rightarrow> (Rejected, fr')
      | (fl, fr') \<Rightarrow> (fl, (leave_scope fr')\<lparr>guard_objs := [], current := None\<rparr>))"
  by (simp add: call_def entry_guard_objs entry_fields split: prod.splits flow.splits)

lemma returned_at_position:
  assumes "\<And>fr'. fst (exec p fr') = Returned E"
  shows "reached pos fr \<Longrightarrow>
           fst (exec_seq (plug pos p) fr) = Returned E \<and>
           exec_seq (plug pos p) fr = exec_seq (plug (cut_after pos) p) fr"
proof (induction pos arbitrary: fr)
  case (Here before after)
  obtain fr1 where b: "exec_seq before fr = (Fallthrough, fr1)"
    using Here by (cases "exec_seq before fr") simp
  obtain fr2 where p: "exec p fr1 = (Returned E, fr2)"
    using assms [of fr1] by (cases "exec p fr1") simp
  show ?case
    by (simp add: exec_seq_append b p)
next
  case (Inside before pos after)
  obtain fr1 where b: "exec_seq before fr = (Fallthrough, fr1)"
    and r: "reached pos (fr1\<lparr>guard_objs := []\<rparr>)"
    using Inside.prems by (cases "exec_seq before fr") (auto split: flow.splits)
  note h = Inside.IH [OF r]
  obtain fr2 where i: "exec_seq (plug pos p) (fr1\<lparr>guard_objs := []\<rparr>) = (Returned E, fr2)"
    using h [THEN conjunct1] by (cases "exec_seq (plug pos p) (fr1\<lparr>guard_objs := []\<rparr>)") simp
  with h have j: "exec_seq (plug (cut_after pos) p) (fr1\<lparr>guard_objs := []\<rparr>) = (Returned E, fr2)"
    by simp
  show ?case
    by (simp add: exec_seq_append b i j)
qed

lemma failed_iff: "R_FAILED E \<longleftrightarrow> E \<noteq> ResultSuccess"
  by (cases E) (simp add: R_FAILED_def IsFailure_def IsSuccess_def ResultSuccess_def Result_raw_def)

lemma propagation_points:
  assumes "E \<noteq> ResultSuccess"
    and "p = RTry E \<or> p = CascadeCode E \<or> p = CascadeResult target (ResultVal_of_code E)"
  shows "fst (exec p fr) = Returned E" and "effects (snd (exec p fr)) = effects fr"
  using assms failed_iff [of E]
  by (auto simp add: macro_defs R_FAILED_def IsError_def IsFailure_def Failed_def Code_def
      ResultVal_of_code_def split: option.splits)

subsection \<open>Propagation of a failure\<close>

text \<open>
  Claim C4. Let \<open>E\<close> be a failure, that is not \<open>ResultSuccess\<close>, and let \<open>p\<close> be
  \<open>R_TRY\<close> or \<open>CASCADE_CODE\<close> on \<open>E\<close>, or \<open>CASCADE_RESULT\<close> on a \<open>ResultVal\<close> constructed
  from \<open>E\<close>. In every frame \<open>p\<close> returns exactly \<open>E\<close>, with no effect, and what follows
  \<open>p\<close> does not run. So a function that reaches \<open>p\<close> at any position of its body, at
  any depth of nested blocks, returns \<open>E\<close> to its caller, and its whole outcome is that
  of the body with every statement after the position removed. On success
  (\<open>ResultSuccess\<close>, or a \<open>ResultVal\<close> holding \<open>v\<close>) execution goes on with the next
  statement, after \<open>CASCADE_RESULT\<close> with \<open>v\<close> bound to the target.
\<close>

theorem try_propagate_returns_failure:
  "(E \<noteq> ResultSuccess \<and>
      (p = RTry E \<or> p = CascadeCode E \<or> p = CascadeResult target (ResultVal_of_code E)) \<longrightarrow>
        fst (exec p fr) = Returned E
        \<and> effects (snd (exec p fr)) = effects fr
        \<and> exec_seq (p # post) fr = exec p fr
        \<and> (reached pos entry \<longrightarrow>
             fst (call (plug pos p)) = Returned E
             \<and> call (plug pos p) = call (plug (cut_after pos) p)))
   \<and> exec_seq (RTry ResultSuccess # post) fr = exec_seq post fr
   \<and> exec_seq (CascadeCode ResultSuccess # post) fr = exec_seq post fr
   \<and> exec_seq (CascadeResult target (ResultVal_of_val v) # post) fr =
       exec_seq post (fr\<lparr>vars := (vars fr)(target := Some v)\<rparr>)"
proof -
  have s: "exec_seq (RTry ResultSuccess # post) fr = exec_seq post fr"
    "exec_seq (CascadeCode ResultSuccess # post) fr = exec_seq post fr"
    "exec_seq (CascadeResult target (ResultVal_of_val v) # post) fr =
       exec_seq post (fr\<lparr>vars := (vars fr)(target := Some v)\<rparr>)"
    using failed_iff [of ResultSuccess]
    by (simp_all add: macro_defs R_FAILED_def IsError_def IsFailure_def Failed_def
        ResultVal_of_val_def)
  have f: "fst (exec p fr) = Returned E \<and> effects (snd (exec p fr)) = effects fr
        \<and> exec_seq (p # post) fr = exec p fr
        \<and> (reached pos entry \<longrightarrow>
             fst (call (plug pos p)) = Returned E
             \<and> call (plug pos p) = call (plug (cut_after pos) p))"
    if e: "E \<noteq> ResultSuccess"
      and p: "p = RTry E \<or> p = CascadeCode E \<or> p = CascadeResult target (ResultVal_of_code E)"
  proof -
    have r: "fst (exec p fr') = Returned E" for fr' :: "'a frame"
      using propagation_points(1) [OF e p] .
    have q: "exec_seq (p # post) fr = exec p fr"
      using r [of fr] by (cases "exec p fr") simp
    have c: "fst (call (plug pos p)) = Returned E \<and> call (plug pos p) = call (plug (cut_after pos) p)"
      if "reached pos entry"
    proof -
      note h = returned_at_position [of p E pos entry, OF r that]
      obtain fr2 where i: "exec_seq (plug pos p) entry = (Returned E, fr2)"
        using h [THEN conjunct1] by (cases "exec_seq (plug pos p) entry") simp
      with h have j: "exec_seq (plug (cut_after pos) p) entry = (Returned E, fr2)"
        by simp
      show ?thesis
        by (simp add: call_eq i j)
    qed
    show ?thesis
      using r [of fr] propagation_points(2) [OF e p] q c by blast
  qed
  show ?thesis
    using s f by blast
qed

theorem try_propagate_returns_failure_witness:
  "Result ErrorModule_FS 42 \<noteq> ResultSuccess
   \<and> reached (Inside [Effect 5] (Here [Effect 6] [Effect 7, RSucceed]) [Effect 8, RSucceed])
         (entry :: unit frame)
   \<and> fst (call (plug (Inside [Effect 5] (Here [Effect 6] [Effect 7, RSucceed]) [Effect 8, RSucceed])
                  (RTry (Result ErrorModule_FS 42) :: unit stmt)))
       = Returned (Result ErrorModule_FS 42)
   \<and> effects (snd (call (plug (Inside [Effect 5] (Here [Effect 6] [Effect 7, RSucceed])
                                  [Effect 8, RSucceed])
                  (RTry (Result ErrorModule_FS 42) :: unit stmt)))) = [5, 6]"
  (is "?E \<noteq> ResultSuccess \<and> reached ?pos entry \<and> fst (call (plug ?pos ?p)) = Returned ?E \<and> _")
proof -
  have e: "?E \<noteq> ResultSuccess"
    using raw_Result_zero_iff [of ErrorModule_FS 42]
    by (auto simp add: ResultSuccess_def Result_raw_def ErrorModule_FS_def)
  have r: "reached ?pos entry"
    by (simp add: entry_def)
  have c: "effects (snd (call (plug (cut_after ?pos) ?p))) = [5, 6]"
    using e failed_iff [of ?E]
    by (simp add: call_def entry_def macro_defs leave_scope_def)
  from try_propagate_returns_failure [where E = ?E and p = ?p and pos = ?pos
      and target = 0 and fr = entry and post = "[]" and v = "()"] e r
  have t: "fst (call (plug ?pos ?p)) = Returned ?E"
    and u: "call (plug ?pos ?p) = call (plug (cut_after ?pos) ?p)"
    by blast+
  have "effects (snd (call (plug ?pos ?p))) = [5, 6]"
    by (simp only: u c)
  with e r t show ?thesis
    by blast
qed

subsection \<open>Scoped guards\<close>

text \<open>
  Claim C3, as stated, on two functions. In the first a success guard is registered
  inside a nested block, which is left without a return: the guard is destroyed at
  the end of that block, reads \<open>ResultSuccess\<close> and runs its closure; the function then
  returns the failure \<open>Result(FS, 42)\<close> through \<open>R_THROW\<close>. In the second the success
  guard is registered in the outermost scope and the function returns the same
  failure through \<open>CASCADE_CODE\<close>, whose plain \<open>return\<close> stores nothing: the guard reads
  \<open>ResultSuccess\<close> and runs. In both a guard registered for success runs although the
  function returns a failure.
\<close>

theorem scoped_guard_counterexample:
  "fst (call [Block [OnResultSuccess 1], RThrow (Result ErrorModule_FS 42) :: unit stmt])
     = Returned (Result ErrorModule_FS 42)
   \<and> IsFailure (Result ErrorModule_FS 42)
   \<and> effects (snd (call [Block [OnResultSuccess 1], RThrow (Result ErrorModule_FS 42) :: unit stmt]))
     = [1]
   \<and> fst (call [OnResultSuccess 1, CascadeCode (Result ErrorModule_FS 42), RSucceed :: unit stmt])
     = Returned (Result ErrorModule_FS 42)
   \<and> effects (snd (call [OnResultSuccess 1, CascadeCode (Result ErrorModule_FS 42),
                          RSucceed :: unit stmt]))
     = [1]"
proof -
  have f: "IsFailure (Result ErrorModule_FS 42)"
    by (simp add: IsFailure_def IsSuccess_def raw_Result ErrorModule_FS_def)
  have s: "IsSuccess ResultSuccess"
    by (simp add: IsSuccess_def ResultSuccess_def Result_raw_def)
  show ?thesis
    using f s f [unfolded IsFailure_def]
    by (simp add: call_def entry_def macro_defs leave_scope_def ScopedResultGuard_dtor_def
        TmpCurrentResultReference_def EvaluateResultSuccess_def R_SUCCEEDED_def IsError_def
        Let_def)
qed

text \<open>
  \<open>PrevRef_N\<close> is declared as a \<open>Result\<close> object, so a guard macro used in a nested block
  binds the new reference to a copy of the enclosing value. \<open>R_THROW\<close> in that block
  stores into the copy; the guard of the enclosing scope reads the enclosing object,
  which still holds \<open>ResultSuccess\<close>.
\<close>

lemma nested_declaration_binds_a_copy:
  "fst (call [OnResultSuccess 1, Block [OnResultFailure 2, RThrow (Result ErrorModule_FS 42)]
              :: unit stmt])
     = Returned (Result ErrorModule_FS 42)
   \<and> effects (snd (call [OnResultSuccess 1,
                          Block [OnResultFailure 2, RThrow (Result ErrorModule_FS 42)]
                          :: unit stmt]))
     = [2, 1]"
proof -
  have f: "IsFailure (Result ErrorModule_FS 42)"
    by (simp add: IsFailure_def IsSuccess_def raw_Result ErrorModule_FS_def)
  have s: "IsSuccess ResultSuccess"
    by (simp add: IsSuccess_def ResultSuccess_def Result_raw_def)
  show ?thesis
    using f s f [unfolded IsFailure_def]
    by (simp add: call_def entry_def macro_defs leave_scope_def ScopedResultGuard_dtor_def
        TmpCurrentResultReference_def EvaluateResultSuccess_def EvaluateResultFailure_def
        R_SUCCEEDED_def R_FAILED_def Let_def)
qed

lemma guard_registered_slot:
  assumes "g = OnResultFailure f \<and> ev = EvaluateResultFailure
         \<or> g = OnResultSuccess f \<and> ev = EvaluateResultSuccess"
  shows "\<exists>a. exec g fr0 =
           (Fallthrough,
            (DECLARE_CURRENT_RESULT_REFERENCE_AND_STORAGE fr0)
              \<lparr>guard_objs := \<lparr>EvaluateResult = ev, m_ref = a, m_f = f\<rparr> # guard_objs fr0\<rparr>)
         \<and> current (DECLARE_CURRENT_RESULT_REFERENCE_AND_STORAGE fr0) = Some a
         \<and> locals (DECLARE_CURRENT_RESULT_REFERENCE_AND_STORAGE fr0) a =
             TmpCurrentResultReference fr0
         \<and> effects (DECLARE_CURRENT_RESULT_REFERENCE_AND_STORAGE fr0) = effects fr0"
  using assms
  by (auto simp add: ON_RESULT_FAILURE_def ON_RESULT_SUCCESS_def ON_RESULT_FAILURE_2_def
      ON_RESULT_SUCCESS_2_def ON_RESULT_RETURN_IMPL_def TmpCurrentResultReference_def
      DECLARE_CURRENT_RESULT_REFERENCE_AND_STORAGE_def Let_def)

text \<open>
  Claim C3, amended. Take a guard registered with \<open>ON_RESULT_FAILURE\<close> or
  \<open>ON_RESULT_SUCCESS\<close> in some scope (the body of the function or a nested block), at a
  point that control reaches, where every statement after it in that scope leaves the
  function through \<open>R_RETURN\<close> or \<open>R_THROW\<close> only (also as \<open>R_SUCCEED\<close>, \<open>R_UNLESS\<close>,
  \<open>R_TRY\<close>, \<open>R_SUCCEED_IF\<close>) and registers further guards with the \<open>_2\<close> forms only,
  and whose closure no other statement runs. The guard is evaluated once, when its
  scope is left, and its closure has not run before. If the scope is left by a return
  of \<open>r\<close>, which is then what the function returns, the closure runs exactly once when
  the predicate of the guard holds of \<open>r\<close> (failure for \<open>ON_RESULT_FAILURE\<close>, success for
  \<open>ON_RESULT_SUCCESS\<close>) and not at all otherwise. If the scope is left by falling
  through its end, the same holds with \<open>r\<close> replaced by the value that the current result
  reference had at the registration, which is \<open>ResultSuccess\<close> unless an enclosing scope
  has a guard. A call is \<open>exec (Block body) entry\<close>, so the body of the function is one
  such scope.
\<close>

theorem scoped_guard_evaluated_at_scope_exit:
  fixes pre rest :: "'t stmt list" and fr :: "'t frame"
  assumes reg: "g = OnResultFailure f \<or> g = OnResultSuccess f"
    and reach: "fst (exec_seq pre (fr\<lparr>guard_objs := []\<rparr>)) = Fallthrough"
    and tr: "\<forall>s \<in> set rest. tracked s"
    and fresh: "f \<notin> (\<Union>s \<in> set (pre @ rest). labels s)"
  shows "(\<forall>r. fst (exec (Block (pre @ g # rest)) fr) = Returned r \<longrightarrow>
            count_list (effects (snd (exec (Block (pre @ g # rest)) fr))) f =
              count_list (effects fr) f +
              (if g = OnResultFailure f \<and> IsFailure r \<or> g = OnResultSuccess f \<and> IsSuccess r
               then 1 else 0))
       \<and> (fst (exec (Block (pre @ g # rest)) fr) = Fallthrough \<longrightarrow>
            count_list (effects (snd (exec (Block (pre @ g # rest)) fr))) f =
              count_list (effects fr) f +
              (if g = OnResultFailure f
                    \<and> IsFailure (TmpCurrentResultReference (snd (exec_seq pre (fr\<lparr>guard_objs := []\<rparr>))))
                  \<or> g = OnResultSuccess f
                    \<and> IsSuccess (TmpCurrentResultReference (snd (exec_seq pre (fr\<lparr>guard_objs := []\<rparr>))))
               then 1 else 0))
       \<and> fst (exec (Block (pre @ g # rest)) fr) \<noteq> Rejected
       \<and> count_list (effects (snd (exec_seq (pre @ g # rest) (fr\<lparr>guard_objs := []\<rparr>)))) f =
           count_list (effects fr) f"
proof -
  define ev where "ev = (if g = OnResultFailure f then EvaluateResultFailure
                         else EvaluateResultSuccess)"
  have reg': "g = OnResultFailure f \<and> ev = EvaluateResultFailure
            \<or> g = OnResultSuccess f \<and> ev = EvaluateResultSuccess"
    using reg by (auto simp add: ev_def)
  have evr: "ev x \<longleftrightarrow> g = OnResultFailure f \<and> IsFailure x \<or> g = OnResultSuccess f \<and> IsSuccess x"
    for x
    using reg by (auto simp add: ev_def EvaluateResultFailure_def EvaluateResultSuccess_def
        R_FAILED_def R_SUCCEEDED_def IsFailure_def)
  from fresh have fp: "f \<notin> (\<Union>s \<in> set pre. labels s)" and fr: "f \<notin> (\<Union>s \<in> set rest. labels s)"
    by auto
  define fri where "fri = fr\<lparr>guard_objs := []\<rparr>"
  obtain fr0 where p0: "exec_seq pre fri = (Fallthrough, fr0)"
    using reach by (cases "exec_seq pre fri") (simp add: fri_def)
  from fresh_label_untouched(2) [OF fp p0]
  have c0: "count_list (effects fr0) f = count_list (effects fr) f"
    and g0: "filter (\<lambda>g. m_f g = f) (guard_objs fr0) = []"
    by (simp_all add: fri_def)
  define d where "d = DECLARE_CURRENT_RESULT_REFERENCE_AND_STORAGE fr0"
  from guard_registered_slot [OF reg', of fr0] obtain a where
    p1: "exec g fr0 =
           (Fallthrough, d\<lparr>guard_objs := \<lparr>EvaluateResult = ev, m_ref = a, m_f = f\<rparr> # guard_objs fr0\<rparr>)"
    and ca: "current d = Some a" and la: "locals d a = TmpCurrentResultReference fr0"
    and ed: "effects d = effects fr0"
    unfolding d_def by blast
  define fr1 where
    "fr1 = d\<lparr>guard_objs := \<lparr>EvaluateResult = ev, m_ref = a, m_f = f\<rparr> # guard_objs fr0\<rparr>"
  have c1: "count_list (effects fr1) f = count_list (effects fr) f"
    using c0 ed by (simp add: fr1_def)
  have g1: "filter (\<lambda>g. m_f g = f) (guard_objs fr1) = [\<lparr>EvaluateResult = ev, m_ref = a, m_f = f\<rparr>]"
    using g0 by (simp add: fr1_def)
  have cur1: "current fr1 = Some a" and l1: "locals fr1 a = TmpCurrentResultReference fr0"
    using ca la by (simp_all add: fr1_def)
  obtain fl fr2 where p2: "exec_seq rest fr1 = (fl, fr2)"
    by (cases "exec_seq rest fr1")
  have whole: "exec_seq (pre @ g # rest) fri = (fl, fr2)"
    using p0 p1 p2 by (simp add: exec_seq_append fr1_def)
  from tracked_keeps_result(2) [OF tr cur1 p2]
  have nr: "fl \<noteq> Rejected" and loc: "\<forall>r. fl = Returned r \<longrightarrow> locals fr2 a = r"
    by simp_all
  have locf: "fl = Fallthrough \<longrightarrow> locals fr2 a = TmpCurrentResultReference fr0"
    using tracked_fallthrough_locals(2) [OF tr, of fr1 fr2] p2 l1 by auto
  from fresh_label_untouched(2) [OF fr p2] nr
  have c2: "count_list (effects fr2) f = count_list (effects fr) f"
    and g2: "filter (\<lambda>g. m_f g = f) (guard_objs fr2) = [\<lparr>EvaluateResult = ev, m_ref = a, m_f = f\<rparr>]"
    using c1 g1 by simp_all
  have out: "exec (Block (pre @ g # rest)) fr =
               (fl, (leave_scope fr2)\<lparr>guard_objs := guard_objs fr, current := current fr\<rparr>)"
    using whole nr by (cases fl) (simp_all add: fri_def)
  have cnt: "count_list (effects (snd (exec (Block (pre @ g # rest)) fr))) f =
               count_list (effects fr) f + (if ev (locals fr2 a) then 1 else 0)"
    unfolding out using c2 g2 by (simp add: leave_scope_eq count_list_map_filter)
  have fl: "fst (exec (Block (pre @ g # rest)) fr) = fl"
    unfolding out by simp
  have s0: "snd (exec_seq pre (fr\<lparr>guard_objs := []\<rparr>)) = fr0"
    using p0 by (simp add: fri_def)
  have w: "snd (exec_seq (pre @ g # rest) (fr\<lparr>guard_objs := []\<rparr>)) = fr2"
    using whole by (simp add: fri_def)
  show ?thesis
    unfolding fl s0 w cnt
    using loc locf nr c2 by (auto simp add: evr)
qed

theorem scoped_guard_evaluated_at_scope_exit_witness:
  "fst (exec_seq [Effect 7] ((entry :: unit frame)\<lparr>guard_objs := []\<rparr>)) = Fallthrough
   \<and> tracked (RTry (Result ErrorModule_FS 42) :: unit stmt)
   \<and> tracked (Effect 8 :: unit stmt) \<and> tracked (RSucceed :: unit stmt)
   \<and> 1 \<notin> (\<Union>s \<in> set ([Effect 7] @ [RTry (Result ErrorModule_FS 42), Effect 8, RSucceed :: unit stmt]).
            labels s)
   \<and> fst (call ([Effect 7] @ OnResultFailure 1 #
                 [RTry (Result ErrorModule_FS 42), Effect 8, RSucceed :: unit stmt]))
       = Returned (Result ErrorModule_FS 42)
   \<and> IsFailure (Result ErrorModule_FS 42)
   \<and> count_list (effects (snd (call ([Effect 7] @ OnResultFailure 1 #
                 [RTry (Result ErrorModule_FS 42), Effect 8, RSucceed :: unit stmt])))) 1 = 1
   \<and> fst (exec (Block ([] @ OnResultSuccess 2 # [Effect 8])) (entry :: unit frame)) = Fallthrough
   \<and> count_list (effects (snd (exec (Block ([] @ OnResultSuccess 2 # [Effect 8]))
                                    (entry :: unit frame)))) 2 = 1"
  (is "?reach \<and> ?t1 \<and> ?t2 \<and> ?t3 \<and> ?fresh \<and> ?ret \<and> ?fail \<and> ?count \<and> ?fall \<and> ?count2")
proof -
  have f: "IsFailure (Result ErrorModule_FS 42)"
    by (simp add: IsFailure_def IsSuccess_def raw_Result ErrorModule_FS_def)
  have reach: ?reach
    by simp
  have t: ?t1 ?t2 ?t3
    by simp_all
  then have tr: "\<forall>s \<in> set [RTry (Result ErrorModule_FS 42), Effect 8, RSucceed :: unit stmt]. tracked s"
    by simp
  have fresh: ?fresh
    by simp
  have ret: ?ret
    using f f [unfolded IsFailure_def] by (simp add: call_def entry_def macro_defs R_FAILED_def Let_def)
  from scoped_guard_evaluated_at_scope_exit [where g = "OnResultFailure 1" and f = 1,
      OF _ reach tr fresh] f ret
  have c: ?count
    by (simp add: call_def entry_fields)
  have fall: ?fall
    by (simp add: entry_def macro_defs Let_def)
  have s: "IsSuccess (TmpCurrentResultReference (entry :: unit frame))"
    by (simp add: TmpCurrentResultReference_def entry_def IsSuccess_def ResultSuccess_def
        Result_raw_def)
  from scoped_guard_evaluated_at_scope_exit [where g = "OnResultSuccess 2" and f = 2
      and pre = "[]" and rest = "[Effect 8]" and fr = "entry :: unit frame"] fall s
  have c2: ?count2
    by (simp add: entry_guard_objs entry_fields)
  from reach t fresh ret f c fall c2 show ?thesis
    by blast
qed

end
